theory Spec2Isabelle
  imports Complex_Main "HOL-Library.Word"
begin

section \<open>Strings and errors\<close>

text \<open>
  A JavaScript string is a sequence of UTF-16 code units: \<open>s.length\<close> counts them and a
  regular expression without the \<open>u\<close> flag matches them one at a time. A literal of the
  source is written \<open>js ''...''\<close>.
\<close>

type_synonym code_unit = "16 word"
type_synonym jstring = "code_unit list"

definition js :: "string \<Rightarrow> jstring" where
  "js s = map of_char s"

text \<open>\<open>throw new Error(message)\<close>: the thrown value, with its message.\<close>

datatype js_error = Error jstring

section \<open>The strength estimator (\<open>analyzePasswordStrength\<close>)\<close>

text \<open>
  The four patterns of the source, \<open>/[a-z]/\<close>, \<open>/[A-Z]/\<close>, \<open>/[0-9]/\<close> and
  \<open>/[^A-Za-z0-9]/\<close>, are single character classes: a list of ranges, negated or not.
  \<open>regex_test\<close> is \<open>RegExp.prototype.test\<close> for such a pattern: the pattern is not
  anchored, so it is tried at each position of the string in turn.
\<close>

datatype class_item = Range code_unit code_unit

datatype char_class = Class "class_item list" | NegClass "class_item list"

fun item_matches :: "class_item \<Rightarrow> code_unit \<Rightarrow> bool" where
  "item_matches (Range lo hi) c = (lo \<le> c \<and> c \<le> hi)"

fun class_matches :: "char_class \<Rightarrow> code_unit \<Rightarrow> bool" where
  "class_matches (Class items) c = list_ex (\<lambda>i. item_matches i c) items"
| "class_matches (NegClass items) c = (\<not> list_ex (\<lambda>i. item_matches i c) items)"

fun regex_test :: "char_class \<Rightarrow> jstring \<Rightarrow> bool" where
  "regex_test cl [] = False"
| "regex_test cl (c # cs) = (if class_matches cl c then True else regex_test cl cs)"

definition re_lower :: char_class where
  "re_lower = Class [Range (of_char CHR ''a'') (of_char CHR ''z'')]"

definition re_upper :: char_class where
  "re_upper = Class [Range (of_char CHR ''A'') (of_char CHR ''Z'')]"

definition re_digit :: char_class where
  "re_digit = Class [Range (of_char CHR ''0'') (of_char CHR ''9'')]"

definition re_other :: char_class where
  "re_other = NegClass [Range (of_char CHR ''A'') (of_char CHR ''Z''),
                        Range (of_char CHR ''a'') (of_char CHR ''z''),
                        Range (of_char CHR ''0'') (of_char CHR ''9'')]"

datatype strength_label = Weak | Moderate | Strong

record strength =
  score :: int
  label :: strength_label
  color :: jstring

text \<open>
  \<open>let score = 0\<close> followed by six \<open>if (...) score += 1\<close>: the counter is threaded
  through the six tests in the source's order, then the three-way branch on it.
\<close>

definition bump_if :: "bool \<Rightarrow> int \<Rightarrow> int" where
  "bump_if b s = (if b then s + 1 else s)"

definition analyzePasswordStrength :: "jstring \<Rightarrow> strength" where
  "analyzePasswordStrength password =
     (let s0 = 0;
          s1 = bump_if (8 \<le> length password) s0;
          s2 = bump_if (12 \<le> length password) s1;
          s3 = bump_if (regex_test re_lower password) s2;
          s4 = bump_if (regex_test re_upper password) s3;
          s5 = bump_if (regex_test re_digit password) s4;
          s6 = bump_if (regex_test re_other password) s5
      in if s6 \<le> 2 then \<lparr>score = s6, label = Weak, color = js ''bg-red-500''\<rparr>
         else if s6 \<le> 4 then \<lparr>score = s6, label = Moderate, color = js ''bg-yellow-500''\<rparr>
         else \<lparr>score = s6, label = Strong, color = js ''bg-accent''\<rparr>)"

subsection \<open>The estimator as the specification words it\<close>

text \<open>
  The specification's contract: one point each for length at least 8, length at least 12,
  a lowercase letter, an uppercase letter, a digit, a symbol; 0 to 2 is Weak, 3 to 4
  Moderate, 5 to 6 Strong. Letters and digits are the ASCII ones, and a symbol is any code
  unit that is neither.
\<close>

definition is_lower :: "code_unit \<Rightarrow> bool" where
  "is_lower c = (97 \<le> c \<and> c \<le> 122)"

definition is_upper :: "code_unit \<Rightarrow> bool" where
  "is_upper c = (65 \<le> c \<and> c \<le> 90)"

definition is_digit :: "code_unit \<Rightarrow> bool" where
  "is_digit c = (48 \<le> c \<and> c \<le> 57)"

definition is_symbol :: "code_unit \<Rightarrow> bool" where
  "is_symbol c = (\<not> is_lower c \<and> \<not> is_upper c \<and> \<not> is_digit c)"

definition estimate_score :: "jstring \<Rightarrow> int" where
  "estimate_score s =
     of_bool (8 \<le> length s) + of_bool (12 \<le> length s)
     + of_bool (list_ex is_lower s) + of_bool (list_ex is_upper s)
     + of_bool (list_ex is_digit s) + of_bool (list_ex is_symbol s)"

definition estimate_label :: "int \<Rightarrow> strength_label" where
  "estimate_label n = (if n \<in> {0, 1, 2} then Weak else if n \<in> {3, 4} then Moderate else Strong)"

section \<open>Properties of the strength estimator\<close>

lemma regex_test_list_ex: "regex_test cl s = list_ex (class_matches cl) s"
  by (induction s) simp_all

lemma re_lower_matches: "class_matches re_lower = is_lower"
  by (rule ext) (simp add: re_lower_def is_lower_def)

lemma re_upper_matches: "class_matches re_upper = is_upper"
  by (rule ext) (simp add: re_upper_def is_upper_def)

lemma re_digit_matches: "class_matches re_digit = is_digit"
  by (rule ext) (simp add: re_digit_def is_digit_def)

lemma re_other_matches: "class_matches re_other = is_symbol"
  by (rule ext) (auto simp add: re_other_def is_symbol_def is_lower_def is_upper_def is_digit_def)

lemma regex_tests:
  "regex_test re_lower s = list_ex is_lower s"
  "regex_test re_upper s = list_ex is_upper s"
  "regex_test re_digit s = list_ex is_digit s"
  "regex_test re_other s = list_ex is_symbol s"
  by (simp_all add: regex_test_list_ex re_lower_matches re_upper_matches
      re_digit_matches re_other_matches)

lemma estimate_score_range: "0 \<le> estimate_score s \<and> estimate_score s \<le> 6"
  by (simp add: estimate_score_def of_bool_def)

lemma six_bumps:
  "bump_if b6 (bump_if b5 (bump_if b4 (bump_if b3 (bump_if b2 (bump_if b1 0))))) =
   of_bool b1 + of_bool b2 + of_bool b3 + of_bool b4 + of_bool b5 + of_bool b6"
  by (simp add: bump_if_def)

lemma analyze_unfold:
  "analyzePasswordStrength s =
     (if estimate_score s \<le> 2
      then \<lparr>score = estimate_score s, label = Weak, color = js ''bg-red-500''\<rparr>
      else if estimate_score s \<le> 4
      then \<lparr>score = estimate_score s, label = Moderate, color = js ''bg-yellow-500''\<rparr>
      else \<lparr>score = estimate_score s, label = Strong, color = js ''bg-accent''\<rparr>)"
  unfolding analyzePasswordStrength_def Let_def six_bumps regex_tests estimate_score_def
  by (rule refl)

lemma analyze_score: "score (analyzePasswordStrength s) = estimate_score s"
  by (simp add: analyze_unfold)

lemma analyze_label: "label (analyzePasswordStrength s) = estimate_label (estimate_score s)"
  using estimate_score_range [of s]
  by (auto simp add: analyze_unfold estimate_label_def)

lemma analyze_abc:
  "score (analyzePasswordStrength (js ''abc'')) = 1"
  "label (analyzePasswordStrength (js ''abc'')) = Weak"
  by (simp_all add: analyze_label analyze_score estimate_score_def estimate_label_def js_def
      is_lower_def is_upper_def is_digit_def is_symbol_def)

lemma analyze_Passw0rd:
  "score (analyzePasswordStrength (js ''Passw0rd!123'')) = 6"
  "label (analyzePasswordStrength (js ''Passw0rd!123'')) = Strong"
  by (simp_all add: analyze_label analyze_score estimate_score_def estimate_label_def js_def
      is_lower_def is_upper_def is_digit_def is_symbol_def)

text \<open>
  Claim C6. The estimator is a function of its input string alone. Its score is the
  number of the six conditions that hold (length at least 8, length at least 12, contains
  a lowercase letter, an uppercase letter, a digit, a symbol), so an integer from 0 to 6;
  the label is Weak for 0 to 2, Moderate for 3 to 4 and Strong for 5 to 6. On \<open>abc\<close> the
  score is 1 and the label Weak; on \<open>Passw0rd!123\<close> the score is 6 and the label Strong.
\<close>

theorem C6_estimate:
  "score (analyzePasswordStrength s) = estimate_score s
   \<and> 0 \<le> score (analyzePasswordStrength s) \<and> score (analyzePasswordStrength s) \<le> 6
   \<and> label (analyzePasswordStrength s) = estimate_label (score (analyzePasswordStrength s))
   \<and> score (analyzePasswordStrength (js ''abc'')) = 1
   \<and> label (analyzePasswordStrength (js ''abc'')) = Weak
   \<and> score (analyzePasswordStrength (js ''Passw0rd!123'')) = 6
   \<and> label (analyzePasswordStrength (js ''Passw0rd!123'')) = Strong"
proof -
  have "label (analyzePasswordStrength s) = estimate_label (score (analyzePasswordStrength s))"
    by (simp only: analyze_score analyze_label)
  then show ?thesis
    using estimate_score_range [of s] analyze_abc analyze_Passw0rd
    by (simp only: analyze_score [of s] simp_thms)
qed

text \<open>
  The theorem at a third input: thirteen code units, lowercase letters and a space (which
  counts as a symbol), so four of the six conditions hold.
\<close>

theorem C6_estimate_witness:
  "score (analyzePasswordStrength (js ''correct horse'')) = 4
   \<and> label (analyzePasswordStrength (js ''correct horse'')) = Moderate"
proof -
  have e: "estimate_score (js ''correct horse'') = 4"
    by (simp add: estimate_score_def js_def is_lower_def is_upper_def is_digit_def is_symbol_def)
  show ?thesis
    using C6_estimate [of "js ''correct horse''"]
    by (simp only: e) (simp add: estimate_label_def)
qed

end
